theory Spec2Isabelle
  imports Complex_Main "HOL-Library.Multiset"
begin

section \<open>The dealflow pipeline (pipeline.py)\<close>

text \<open>
  Conventions of the embedding.
  \<^item> A Python \<open>str\<close> is a \<open>string\<close>; a \<open>char\<close> is a code point below 256.
  \<^item> A Python \<open>float\<close> (and an \<open>int\<close> mixed with floats) is a \<open>real\<close>:
    arithmetic is exact, there is no NaN and no infinity. The program computes on
    doubles, so a value of the model and the double of the program can differ in the last
    bits: a product such as \<open>float("2.01") * 1_000_000\<close> is \<open>2010000\<close> here and
    \<open>2009999.9999999998\<close> there, a very long run of digits overflows to \<open>inf\<close> there,
    and \<open>round(x, 3)\<close> can fall on the other side when \<open>1000 x\<close> is within such an
    error of a half. The theorems below are either independent of the arithmetic or
    evaluate it where the doubles are exact or far from a half.
  \<^item> A raised exception is the \<open>Inl\<close> branch of a result \<open>error + 'a\<close>.
  \<^item> A dictionary key that may be absent is an \<open>option\<close> field, \<open>None\<close> meaning
    that the key is absent (or, for the nullable fields of a deal, holds Python's \<open>None\<close>).
\<close>

datatype error = KeyError string | ValueError | ZeroDivisionError

subsection \<open>Characters and strings\<close>

definition is_digit :: "char \<Rightarrow> bool" where
  "is_digit c \<longleftrightarrow> c \<in> set ''0123456789''"

text \<open>The character class \<open>[0-9.]\<close>.\<close>

definition is_numch :: "char \<Rightarrow> bool" where
  "is_numch c \<longleftrightarrow> is_digit c \<or> c = CHR ''.''"

text \<open>The character class \<open>[0-9,\.]\<close>.\<close>

definition is_pricech :: "char \<Rightarrow> bool" where
  "is_pricech c \<longleftrightarrow> is_digit c \<or> c = CHR '','' \<or> c = CHR ''.''"

text \<open>
  Whitespace as \<open>\s\<close> and \<open>str.strip\<close> see it below code point 256:
  tab to carriage return, the four separators 28 to 31, the space, NEL and the
  no-break space.
\<close>

definition is_space :: "char \<Rightarrow> bool" where
  "is_space c \<longleftrightarrow>
     (let n = (of_char c :: nat)
      in (9 \<le> n \<and> n \<le> 13) \<or> (28 \<le> n \<and> n \<le> 32) \<or> n = 133 \<or> n = 160)"

text \<open>\<open>str.lower\<close>, one character at a time: A to Z, and the Latin-1 capitals.\<close>

definition lower_char :: "char \<Rightarrow> char" where
  "lower_char c =
     (let n = (of_char c :: nat)
      in if (65 \<le> n \<and> n \<le> 90) \<or> (192 \<le> n \<and> n \<le> 222 \<and> n \<noteq> 215)
         then char_of (n + 32) else c)"

definition lower :: "string \<Rightarrow> string" where
  "lower s = map lower_char s"

text \<open>\<open>str.strip()\<close>: whitespace removed at both ends.\<close>

definition strip :: "string \<Rightarrow> string" where
  "strip s = rev (dropWhile is_space (rev (dropWhile is_space s)))"

text \<open>\<open>s.replace(c, "")\<close> for a one-character \<open>c\<close>.\<close>

definition remove_char :: "char \<Rightarrow> string \<Rightarrow> string" where
  "remove_char c s = filter (\<lambda>x. x \<noteq> c) s"

definition digit_val :: "char \<Rightarrow> nat" where
  "digit_val c = of_char c - 48"

definition nat_of_digits :: "string \<Rightarrow> nat" where
  "nat_of_digits ds = foldl (\<lambda>n c. 10 * n + digit_val c) 0 ds"

text \<open>
  \<open>float(g)\<close> for a string \<open>g\<close> over \<open>[0-9.]\<close>, which is all that group 1 of the
  pattern of \<open>norm_price\<close> can hold: digits with at most one dot and at least one digit
  give the decimal value, anything else (\<open>"."\<close>, \<open>"1.2.3"\<close>) raises ValueError,
  here \<open>None\<close>.
\<close>

definition float_of_numstr :: "string \<Rightarrow> real option" where
  "float_of_numstr g =
     (let ip = takeWhile is_digit g; r = dropWhile is_digit g
      in case r of
           [] \<Rightarrow> (if ip = [] then None else Some (real (nat_of_digits ip)))
         | c # fp \<Rightarrow>
             (if c = CHR ''.'' \<and> list_all is_digit fp \<and> (ip \<noteq> [] \<or> fp \<noteq> [])
              then Some (real (nat_of_digits (ip @ fp)) / 10 ^ length fp)
              else None))"

subsection \<open>norm_price\<close>

text \<open>
  \<open>re.search(r'([0-9.]+)(m|k)?', s)\<close>: the leftmost character of \<open>[0-9.]\<close> starts
  the match, group 1 is the whole run from there (the quantifier is greedy and what
  follows is optional, so nothing is given back), group 2 is the next character when it
  is \<open>m\<close> or \<open>k\<close>.
\<close>

fun search_number :: "string \<Rightarrow> (string \<times> char option) option" where
  "search_number [] = None"
| "search_number (c # cs) =
     (if is_numch c
      then Some (takeWhile is_numch (c # cs),
                 case dropWhile is_numch (c # cs) of
                   [] \<Rightarrow> None
                 | r # _ \<Rightarrow> (if r = CHR ''m'' \<or> r = CHR ''k'' then Some r else None))
      else search_number cs)"

text \<open>\<open>{"m":1_000_000,"k":1_000}.get(m.group(2) or "",1)\<close>\<close>

definition multiplier :: "char option \<Rightarrow> real" where
  "multiplier g2 =
     (case g2 of
        None \<Rightarrow> 1
      | Some c \<Rightarrow> (if c = CHR ''m'' then 1000000 else if c = CHR ''k'' then 1000 else 1))"

definition norm_price :: "string \<Rightarrow> error + real option" where
  "norm_price s =
     (if s = [] then Inr None
      else
        (let s' = remove_char CHR '' '' (remove_char CHR '','' s)
         in case search_number (lower s') of
              None \<Rightarrow> Inr None
            | Some (g1, g2) \<Rightarrow>
                (case float_of_numstr g1 of
                   None \<Rightarrow> Inl ValueError
                 | Some x \<Rightarrow> Inr (Some (x * multiplier g2)))))"

subsection \<open>Records of the pipeline\<close>

text \<open>A raw search hit: the keys \<open>link\<close>, \<open>title\<close> and \<open>snippet\<close> may be absent.\<close>

record raw_hit =
  link :: "string option"
  hit_title :: "string option"
  snippet :: "string option"

text \<open>An entry of sites.yaml; \<open>name\<close> is read with \<open>source['name']\<close>, the rest with \<open>get\<close>.\<close>

record site =
  name :: "string option"
  site_category :: "string option"
  region :: "string option"
  site_ownership :: "string option"
  queries :: "string list"

record deal =
  deal_id :: string
  title :: string
  category :: string
  source :: string
  url :: "string option"
  asking_price_aud :: "real option"
  revenue_aud :: "real option"
  ebitda_aud :: "real option"
  location :: string
  lat :: "real option"
  lon :: "real option"
  ownership :: string
  days_on_market :: int
  date_listed :: string
  deal_notes :: string
  contact :: "string option"

text \<open>\<open>d2 = dict(d)\<close> with the keys \<open>score\<close> and \<open>features\<close> added.\<close>

record scored_deal = deal +
  score :: real
  features :: "(string \<times> real) list"

text \<open>
  What a run takes from the interpreter and the clock:
  \<^item> \<open>py_hash\<close>: the built-in \<open>hash\<close> on a \<open>str\<close> or \<open>None\<close>; CPython salts the hash
    of a \<open>str\<close> with a seed drawn when the process starts, so it is a parameter of the run;
  \<^item> \<open>utc_today\<close>: \<open>datetime.now(timezone.utc).date().isoformat()\<close>;
  \<^item> \<open>today\<close>: \<open>datetime.now().date()\<close>, as a day number (the proleptic Gregorian ordinal);
  \<^item> \<open>fromisoformat\<close>: the day number of \<open>datetime.fromisoformat(s).date()\<close>, \<open>None\<close>
    when it raises.
\<close>

record runtime =
  py_hash :: "string option \<Rightarrow> int"
  utc_today :: string
  today :: int
  fromisoformat :: "string \<Rightarrow> int option"

text \<open>scoring_config.json; a field is \<open>None\<close> when its key is absent.\<close>

record scoring_config =
  weights :: "(string \<times> real) list option"
  target_categories :: "string list option"
  hq_lat :: "real option"
  hq_lon :: "real option"
  max_distance_km_for_full_points :: "real option"

definition bind_err :: "error + 'a \<Rightarrow> ('a \<Rightarrow> error + 'b) \<Rightarrow> error + 'b" where
  "bind_err r f = (case r of Inl e \<Rightarrow> Inl e | Inr v \<Rightarrow> f v)"

subsection \<open>normalize_hit\<close>

text \<open>An optional one-character item of a pattern (\<open>D?\<close>, \<open>\$?\<close>, \<open>\s?\<close>).\<close>

definition opt_skip :: "(char \<Rightarrow> bool) \<Rightarrow> string \<Rightarrow> string" where
  "opt_skip p s = (case s of [] \<Rightarrow> [] | c # cs \<Rightarrow> (if p c then cs else s))"

text \<open>
  The pattern \<open>AUD?\$?\s?([0-9,\.]+[mk]?)\<close> under \<open>re.I\<close>, matched at the start of
  \<open>s\<close>; the result is group 1. The classes of consecutive items are disjoint, so
  the greedy choice is the only one that can succeed.
\<close>

definition match_price :: "string \<Rightarrow> string option" where
  "match_price s =
     (case s of
        a # u # r \<Rightarrow>
          (if lower_char a = CHR ''a'' \<and> lower_char u = CHR ''u''
           then
             (let r1 = opt_skip (\<lambda>c. lower_char c = CHR ''d'') r;
                  r2 = opt_skip (\<lambda>c. c = CHR ''$'') r1;
                  r3 = opt_skip is_space r2;
                  digits = takeWhile is_pricech r3
              in if digits = [] then None
                 else Some (digits @
                   (case dropWhile is_pricech r3 of
                      [] \<Rightarrow> []
                    | c # _ \<Rightarrow>
                        (if lower_char c = CHR ''m'' \<or> lower_char c = CHR ''k''
                         then [c] else []))))
           else None)
      | _ \<Rightarrow> None)"

text \<open>\<open>re.search\<close>: the match at the leftmost position that has one.\<close>

fun search_price :: "string \<Rightarrow> string option" where
  "search_price [] = None"
| "search_price (c # cs) =
     (case match_price (c # cs) of
        Some g \<Rightarrow> Some g
      | None \<Rightarrow> search_price cs)"

definition digit_char :: "nat \<Rightarrow> char" where
  "digit_char d = ''0123456789'' ! d"

text \<open>The decimal digits of a natural number, as an f-string prints it.\<close>

fun str_of_nat :: "nat \<Rightarrow> string" where
  "str_of_nat n =
     (if n < 10 then [digit_char n] else str_of_nat (n div 10) @ [digit_char (n mod 10)])"

declare str_of_nat.simps [simp del]

definition get_or :: "'a option \<Rightarrow> 'a \<Rightarrow> 'a" where
  "get_or v dflt = (case v of None \<Rightarrow> dflt | Some x \<Rightarrow> x)"

definition normalize_hit :: "runtime \<Rightarrow> raw_hit \<Rightarrow> site \<Rightarrow> error + deal" where
  "normalize_hit rt hit src =
     (let lnk = link hit;
          ttl = strip (get_or (hit_title hit) []);
          snip = get_or (snippet hit) []
      in bind_err
           (case search_price (snip @ '' '' @ ttl) of
              None \<Rightarrow> Inr None
            | Some g \<Rightarrow> norm_price g)
           (\<lambda>price.
              case name src of
                None \<Rightarrow> Inl (KeyError ''name'')
              | Some n \<Rightarrow>
                  Inr \<lparr> deal_id = n @ ''-'' @ str_of_nat (nat (\<bar>py_hash rt lnk\<bar> mod 10000000)),
                        title = ttl,
                        category = get_or (site_category src) ''Unknown'',
                        source = n,
                        url = lnk,
                        asking_price_aud = price,
                        revenue_aud = None,
                        ebitda_aud = None,
                        location = get_or (region src) ''AU'',
                        lat = None,
                        lon = None,
                        ownership = get_or (site_ownership src) ''Unknown'',
                        days_on_market = 0,
                        date_listed = utc_today rt,
                        deal_notes = snip,
                        contact = None \<rparr>))"

text \<open>The text that line 65 searches: \<open>snippet + " " + title\<close>.\<close>

definition price_text :: "raw_hit \<Rightarrow> string" where
  "price_text hit = get_or (snippet hit) [] @ '' '' @ strip (get_or (hit_title hit) [])"

subsection \<open>De-duplication by url (in run)\<close>

text \<open>
  \<open>uniq[k] = v\<close> on a dictionary kept as the list of its items in insertion order:
  a key already there keeps its place and takes the new value, a new key goes last.
\<close>

fun dict_set :: "'k \<Rightarrow> 'v \<Rightarrow> ('k \<times> 'v) list \<Rightarrow> ('k \<times> 'v) list" where
  "dict_set k v [] = [(k, v)]"
| "dict_set k v (p # ps) = (if fst p = k then (k, v) # ps else p # dict_set k v ps)"

text \<open>
  \<open>uniq = {}\<close>, \<open>for d in deals: uniq[d["url"]] = d\<close>, \<open>deals = list(uniq.values())\<close>
\<close>

definition dedupe :: "deal list \<Rightarrow> deal list" where
  "dedupe deals = map snd (foldl (\<lambda>uniq d. dict_set (url d) d uniq) [] deals)"

subsection \<open>score_deals\<close>

definition radians :: "real \<Rightarrow> real" where
  "radians x = x * pi / 180"

text \<open>
  The haversine distance. \<open>math.sqrt\<close> raises ValueError below 0 and \<open>math.asin\<close>
  outside \<open>[-1, 1]\<close>.
\<close>

definition haversine_h :: "real \<Rightarrow> real \<Rightarrow> real \<Rightarrow> real \<Rightarrow> real" where
  "haversine_h a b c d =
     (let p1 = radians a; p2 = radians c;
          dlat = radians (c - a); dlon = radians (d - b)
      in (sin (dlat / 2))\<^sup>2 + cos p1 * cos p2 * (sin (dlon / 2))\<^sup>2)"

definition km :: "real \<Rightarrow> real \<Rightarrow> real \<Rightarrow> real \<Rightarrow> error + real" where
  "km a b c d =
     (let R = (6371 :: real); h = haversine_h a b c d
      in if h < 0 then Inl ValueError
         else if 1 < sqrt h then Inl ValueError
         else Inr (2 * R * arcsin (sqrt h)))"

text \<open>
  \<open>round(x, 3)\<close>: the nearest multiple of 0.001, a tie going to the even one. Python
  rounds the double \<open>x\<close>; the model rounds the exact real, so the two agree unless
  the exact value is at (or within a double's error of) a tie.
\<close>

definition round_half_even :: "real \<Rightarrow> int" where
  "round_half_even y =
     (let f = \<lfloor>y\<rfloor>; r = y - of_int f
      in if r < 1 / 2 then f
         else if 1 / 2 < r then f + 1
         else if even f then f else f + 1)"

definition round3 :: "real \<Rightarrow> real" where
  "round3 x = of_int (round_half_even (x * 1000)) / 1000"

text \<open>\<open>d.get(k) or 0\<close>: an absent, \<open>None\<close> or zero value gives 0.\<close>

definition or0 :: "real option \<Rightarrow> real" where
  "or0 v = (case v of None \<Rightarrow> 0 | Some x \<Rightarrow> (if x = 0 then 0 else x))"

text \<open>\<open>w[k]\<close>\<close>

definition lookup_weight :: "(string \<times> real) list \<Rightarrow> string \<Rightarrow> error + real" where
  "lookup_weight w k = (case map_of w k of None \<Rightarrow> Inl (KeyError k) | Some v \<Rightarrow> Inr v)"

text \<open>The proximity feature \<open>f_dist\<close>; \<open>dist/maxd\<close> raises ZeroDivisionError at 0.\<close>

definition proximity :: "real \<Rightarrow> real \<Rightarrow> real \<Rightarrow> deal \<Rightarrow> error + real" where
  "proximity hqlat hqlon maxd d =
     (case lat d of
        None \<Rightarrow> Inr 0.5
      | Some la \<Rightarrow>
          (case lon d of
             None \<Rightarrow> Inr 0.5
           | Some lo \<Rightarrow>
               bind_err (km hqlat hqlon la lo)
                 (\<lambda>dist. if maxd = 0 then Inl ZeroDivisionError
                         else Inr (max 0 (1 - dist / maxd)))))"

text \<open>
  \<open>days\<close>: the \<open>try\<close> block; any exception of the parse gives 30.
\<close>

definition days_listed :: "runtime \<Rightarrow> deal \<Rightarrow> int" where
  "days_listed rt d =
     (case fromisoformat rt (date_listed d) of
        None \<Rightarrow> 30
      | Some listed \<Rightarrow> today rt - listed)"

text \<open>The body of the loop of \<open>score_deals\<close>, for one deal \<open>d\<close>.\<close>

definition score_one ::
  "runtime \<Rightarrow> (string \<times> real) list \<Rightarrow> string list \<Rightarrow> real \<Rightarrow> real \<Rightarrow> real \<Rightarrow> deal
     \<Rightarrow> error + scored_deal" where
  "score_one rt w target hqlat hqlon maxd d =
     (let rev_aud = or0 (revenue_aud d);
          ebitda = or0 (ebitda_aud d);
          price = or0 (asking_price_aud d);
          margin = (if rev_aud > 0 then ebitda / rev_aud else 0);
          pte = (if ebitda > 0 then price / ebitda else 99);
          f_margin = min (max (margin / 0.3) 0) 1;
          f_pte = 1 - min (pte / 5) 1;
          days = days_listed rt d;
          f_recent = max 0 (1 - real_of_int days / 30);
          f_freehold = (if lower (ownership d) = ''freehold'' then 1 else 0.3);
          f_cat = (if category d \<in> set target then 1 else 0.5)
      in bind_err (proximity hqlat hqlon maxd d) (\<lambda>f_dist.
         bind_err (lookup_weight w ''ebitda_margin'') (\<lambda>w_margin.
         bind_err (lookup_weight w ''price_to_ebitda'') (\<lambda>w_pte.
         bind_err (lookup_weight w ''recency'') (\<lambda>w_recent.
         bind_err (lookup_weight w ''ownership_freehold'') (\<lambda>w_freehold.
         bind_err (lookup_weight w ''category_match'') (\<lambda>w_cat.
         bind_err (lookup_weight w ''proximity_se_qld'') (\<lambda>w_dist.
           Inr (deal.extend d
                  \<lparr> score = round3 (w_margin * f_margin + w_pte * f_pte + w_recent * f_recent
                                     + w_freehold * f_freehold + w_cat * f_cat + w_dist * f_dist),
                    features =
                      [(''margin'', round3 f_margin),
                       (''price_to_ebitda'', round3 f_pte),
                       (''recency'', round3 f_recent),
                       (''freehold'', f_freehold),
                       (''category'', f_cat),
                       (''proximity'', round3 f_dist)] \<rparr>)))))))))"

text \<open>The loop: the first exception ends it, otherwise \<open>out\<close> holds one entry per deal.\<close>

fun score_loop ::
  "runtime \<Rightarrow> (string \<times> real) list \<Rightarrow> string list \<Rightarrow> real \<Rightarrow> real \<Rightarrow> real \<Rightarrow> deal list
     \<Rightarrow> error + scored_deal list" where
  "score_loop rt w target hqlat hqlon maxd [] = Inr []"
| "score_loop rt w target hqlat hqlon maxd (d # ds) =
     bind_err (score_one rt w target hqlat hqlon maxd d) (\<lambda>d2.
     bind_err (score_loop rt w target hqlat hqlon maxd ds) (\<lambda>out. Inr (d2 # out)))"

text \<open>\<open>cfg[k]\<close> on the configuration.\<close>

definition cfg_get :: "'a option \<Rightarrow> string \<Rightarrow> error + 'a" where
  "cfg_get v k = (case v of None \<Rightarrow> Inl (KeyError k) | Some x \<Rightarrow> Inr x)"

text \<open>
  \<open>out.sort(key=lambda x: x["score"], reverse=True)\<close>: \<open>list.sort\<close> is stable, and with
  \<open>reverse=True\<close> it sorts as if each comparison were reversed, entries with equal keys
  keeping their order: the stable sort on the negated key.
\<close>

definition sort_by_score_desc :: "scored_deal list \<Rightarrow> scored_deal list" where
  "sort_by_score_desc out = sort_key (\<lambda>x. - score x) out"

text \<open>Lines 112 to 167: the configuration is read, then the loop fills \<open>out\<close>.\<close>

definition score_unsorted ::
  "runtime \<Rightarrow> deal list \<Rightarrow> scoring_config \<Rightarrow> error + scored_deal list" where
  "score_unsorted rt deals cfg =
     bind_err (cfg_get (weights cfg) ''weights'') (\<lambda>w.
     bind_err (cfg_get (target_categories cfg) ''target_categories'') (\<lambda>target.
     bind_err (cfg_get (hq_lat cfg) ''hq_lat'') (\<lambda>hqlat.
     bind_err (cfg_get (hq_lon cfg) ''hq_lon'') (\<lambda>hqlon.
     bind_err (cfg_get (max_distance_km_for_full_points cfg) ''max_distance_km_for_full_points'')
       (\<lambda>maxd. score_loop rt w target hqlat hqlon maxd deals)))))"

text \<open>\<open>score_deals(deals, cfg)\<close>: lines 168 and 169 sort \<open>out\<close> and return it.\<close>

definition score_deals :: "runtime \<Rightarrow> deal list \<Rightarrow> scoring_config \<Rightarrow> error + scored_deal list" where
  "score_deals rt deals cfg =
     bind_err (score_unsorted rt deals cfg) (\<lambda>out. Inr (sort_by_score_desc out))"

text \<open>The six keys that the loop reads from \<open>cfg["weights"]\<close>.\<close>

definition weight_keys :: "string list" where
  "weight_keys =
     [''ebitda_margin'', ''price_to_ebitda'', ''recency'', ''ownership_freehold'',
      ''category_match'', ''proximity_se_qld'']"

subsection \<open>Concrete inputs\<close>

text \<open>
  A run on 2026-11-04 (day number 739924) whose parser knows that day and the next.
\<close>

definition run_nov4 :: runtime where
  "run_nov4 =
     \<lparr> py_hash = (\<lambda>_. 5021377081),
       utc_today = ''2026-11-04'',
       today = 739924,
       fromisoformat =
         (\<lambda>s. if s = ''2026-11-04'' then Some 739924
              else if s = ''2026-11-05'' then Some 739925
              else None) \<rparr>"

text \<open>The same day in another interpreter process: only the hash differs.\<close>

definition run_nov4_other_process :: runtime where
  "run_nov4_other_process = run_nov4 \<lparr> py_hash := (\<lambda>_. -1846287913) \<rparr>"

definition full_config :: scoring_config where
  "full_config =
     \<lparr> weights =
         Some [(''ebitda_margin'', 0.25), (''price_to_ebitda'', 0.25), (''recency'', 0.1),
               (''ownership_freehold'', 0.15), (''category_match'', 0.15),
               (''proximity_se_qld'', 0.1)],
       target_categories = Some [''Cafe''],
       hq_lat = Some (-27.5),
       hq_lon = Some 153,
       max_distance_km_for_full_points = Some 200 \<rparr>"

text \<open>A configuration whose \<open>weights\<close> object is empty.\<close>

definition config_without_weight_keys :: scoring_config where
  "config_without_weight_keys = full_config \<lparr> weights := Some [] \<rparr>"

text \<open>A configuration without the key \<open>hq_lat\<close>.\<close>

definition config_without_hq_lat :: scoring_config where
  "config_without_hq_lat = full_config \<lparr> hq_lat := None \<rparr>"

definition cafe_site :: site where
  "cafe_site =
     \<lparr> name = Some ''seek'', site_category = Some ''Cafe'', region = Some ''QLD'',
       site_ownership = Some ''Leasehold'', queries = [''cafe for sale brisbane''] \<rparr>"

definition deal_leasehold :: deal where
  "deal_leasehold =
     \<lparr> deal_id = ''seek-1'', title = ''Cafe A'', category = ''Cafe'', source = ''seek'',
       url = Some ''https://a.example/1'', asking_price_aud = None, revenue_aud = None,
       ebitda_aud = None, location = ''QLD'', lat = None, lon = None,
       ownership = ''Leasehold'', days_on_market = 0, date_listed = ''2026-11-04'',
       deal_notes = ''cafe'', contact = None \<rparr>"

definition deal_freehold :: deal where
  "deal_freehold =
     deal_leasehold \<lparr> deal_id := ''seek-2'', title := ''Cafe B'',
       url := Some ''https://a.example/2'', ownership := ''Freehold'' \<rparr>"

text \<open>A deal listed on the day after the run's local date.\<close>

definition deal_listed_tomorrow :: deal where
  "deal_listed_tomorrow = deal_leasehold \<lparr> date_listed := ''2026-11-05'' \<rparr>"

text \<open>A deal with a known positive EBITDA and no asking price.\<close>

definition deal_no_price :: deal where
  "deal_no_price = deal_leasehold \<lparr> ebitda_aud := Some 300000 \<rparr>"

text \<open>A later observation of the url of \<open>deal_leasehold\<close>.\<close>

definition deal_leasehold_again :: deal where
  "deal_leasehold_again = deal_leasehold \<lparr> title := ''Cafe A (updated)'' \<rparr>"

definition hit_bare_amount :: raw_hit where
  "hit_bare_amount =
     \<lparr> link = Some ''https://a.example/1'', hit_title = Some ''Cafe for sale 450k'',
       snippet = Some ''Asking $1.2m'' \<rparr>"

definition hit_marked_amount :: raw_hit where
  "hit_marked_amount = hit_bare_amount \<lparr> snippet := Some ''Asking AUD$1.2m'' \<rparr>"


text \<open>The letters \<open>au\<close> of \<open>Landau\<close> followed by a comma: a match whose number has no digit.\<close>

definition hit_marker_without_digit :: raw_hit where
  "hit_marker_without_digit =
     \<lparr> link = Some ''https://a.example/4'', hit_title = Some ''Cafe'',
       snippet = Some ''Landau, 450k'' \<rparr>"

subsection \<open>Predicates used in the statements and proofs\<close>

text \<open>
  The items of \<open>uniq\<close>: no key occurs twice, and each deal is stored under its own url.
\<close>

definition keyed_by_url :: "(string option \<times> deal) list \<Rightarrow> bool" where
  "keyed_by_url ps \<longleftrightarrow> distinct (map fst ps) \<and> (\<forall>p \<in> set ps. url (snd p) = fst p)"


section \<open>Evaluation of concrete inputs\<close>

lemmas string_eval =
  remove_char_def lower_def lower_char_def is_numch_def is_digit_def is_pricech_def is_space_def
  float_of_numstr_def multiplier_def nat_of_digits_def digit_val_def char_of_eq_iff
  opt_skip_def strip_def digit_char_def get_or_def

lemmas normalize_eval =
  normalize_hit_def norm_price_def match_price_def bind_err_def Let_def string_eval

lemmas score_eval =
  score_deals_def score_unsorted_def cfg_get_def bind_err_def score_one_def proximity_def
  lookup_weight_def or0_def days_listed_def round3_def round_half_even_def
  sort_by_score_desc_def deal.extend_def deal.truncate_def lower_def lower_char_def
  char_of_eq_iff

lemma bind_err_Inr: "bind_err r f = Inr y \<longleftrightarrow> (\<exists>v. r = Inr v \<and> f v = Inr y)"
  by (cases r) (simp_all add: bind_err_def)

section \<open>The price parser\<close>

text \<open>
  C3. The claim: for every input string \<open>norm_price\<close> returns a number or null and never
  raises. The pattern \<open>[0-9.]+\<close> admits runs with several dots, which \<open>float\<close> rejects:
  on \<open>"1.2.3"\<close> the call raises ValueError.
\<close>

theorem norm_price_raises_on_second_dot: "norm_price ''1.2.3'' = Inl ValueError"
  by (simp add: norm_price_def string_eval)

section \<open>Normalisation of a hit\<close>






























text \<open>
  The converse part of C4, that the price is null only when the pattern does not occur,
  fails as well: in \<open>Landau, 450k\<close> the pattern matches \<open>au,\<close>, the number matched is
  a comma, and \<open>norm_price\<close> finds no digit in it.
\<close>

theorem marker_without_digit_gives_no_price:
  "search_price (price_text hit_marker_without_digit) = Some '',''
   \<and> map_sum id asking_price_aud (normalize_hit run_nov4 hit_marker_without_digit cafe_site)
       = Inr None"
  by (simp add: price_text_def normalize_eval hit_marker_without_digit_def cafe_site_def)

lemma normalize_hit_fields:
  assumes "normalize_hit rt hit src = Inr d"
  shows "\<exists>n. name src = Some n
           \<and> deal_id d = n @ ''-'' @ str_of_nat (nat (\<bar>py_hash rt (link hit)\<bar> mod 10000000))
           \<and> (case search_price (get_or (snippet hit) [] @ '' '' @ strip (get_or (hit_title hit) []))
                of None \<Rightarrow> Inr None | Some g \<Rightarrow> norm_price g) = Inr (asking_price_aud d)"
  using assms
  by (auto simp: normalize_hit_def Let_def bind_err_Inr split: option.splits)

text \<open>
  C5, as the code has it. Within one interpreter process (one \<open>hash\<close> function) the
  \<open>id\<close> is a function of the source's name and the hit's link alone: the name, a dash
  and \<open>abs(hash(link)) % 10_000_000\<close> in decimal. Title, snippet and date play no part.
\<close>

theorem deal_id_function_of_name_link_hash:
  assumes "normalize_hit rt1 hit1 src1 = Inr d1" and "normalize_hit rt2 hit2 src2 = Inr d2"
    and "name src1 = name src2" and "link hit1 = link hit2" and "py_hash rt1 = py_hash rt2"
  shows "deal_id d1 = deal_id d2
         \<and> (\<exists>n. name src1 = Some n
               \<and> deal_id d1 = n @ ''-''
                   @ str_of_nat (nat (\<bar>py_hash rt1 (link hit1)\<bar> mod 10000000)))"
  using normalize_hit_fields [OF assms(1)] normalize_hit_fields [OF assms(2)] assms(3-5)
  by auto

theorem deal_id_function_of_name_link_hash_witness:
  "map_sum id deal_id (normalize_hit run_nov4 hit_bare_amount cafe_site) = Inr ''seek-1377081''
   \<and> map_sum id deal_id (normalize_hit run_nov4 hit_marked_amount cafe_site)
       = Inr ''seek-1377081''"
proof -
  let ?a = "normalize_hit run_nov4 hit_bare_amount cafe_site"
  let ?b = "normalize_hit run_nov4 hit_marked_amount cafe_site"
  have a: "?a = Inr (projr ?a)"
    by (simp add: normalize_eval hit_bare_amount_def cafe_site_def)
  have b: "?b = Inr (projr ?b)"
    by (simp add: normalize_eval hit_marked_amount_def hit_bare_amount_def cafe_site_def)
  have l: "link hit_bare_amount = link hit_marked_amount"
    by (simp add: hit_marked_amount_def)
  have i: "deal_id (projr ?a) = ''seek-1377081''"
    by (simp add: normalize_eval hit_bare_amount_def cafe_site_def run_nov4_def
        str_of_nat.simps)
  from deal_id_function_of_name_link_hash [OF a b refl l refl] i
  have "deal_id (projr ?b) = ''seek-1377081''" by simp
  with i show ?thesis by (subst a, subst b) simp
qed

text \<open>
  C5, as the claim states it, fails across runs: the same hit and source in two processes
  whose \<open>hash\<close> differs get two different ids.
\<close>

theorem deal_id_differs_between_processes:
  "map_sum id deal_id (normalize_hit run_nov4 hit_bare_amount cafe_site) = Inr ''seek-1377081''
   \<and> map_sum id deal_id (normalize_hit run_nov4_other_process hit_bare_amount cafe_site)
       = Inr ''seek-6287913''"
  by (simp add: normalize_eval hit_bare_amount_def cafe_site_def run_nov4_def
      run_nov4_other_process_def str_of_nat.simps)

section \<open>De-duplication\<close>

lemma dict_set_fresh: "k \<notin> fst ` set ps \<Longrightarrow> dict_set k v ps = ps @ [(k, v)]"
  by (induction ps) auto

lemma map_of_dict_set: "map_of (dict_set k v ps) = (map_of ps)(k \<mapsto> v)"
  by (induction ps) (auto simp: fun_eq_iff)

lemma keys_dict_set: "fst ` set (dict_set k v ps) = insert k (fst ` set ps)"
  by (induction ps) auto

lemma distinct_dict_set:
  "distinct (map fst ps) \<Longrightarrow> distinct (map fst (dict_set k v ps))"
proof (induction ps)
  case Nil
  show ?case by simp
next
  case (Cons p ps)
  have "fst ` set (dict_set k v ps) = insert k (fst ` set ps)"
    by (rule keys_dict_set)
  with Cons show ?case by auto
qed

lemma set_dict_set: "set (dict_set k v ps) \<subseteq> insert (k, v) (set ps)"
  by (induction ps) auto

lemma keyed_dict_set: "keyed_by_url ps \<Longrightarrow> keyed_by_url (dict_set (url d) d ps)"
  unfolding keyed_by_url_def using set_dict_set [of "url d" d ps]
  by (auto simp: distinct_dict_set)

lemma keyed_foldl:
  "keyed_by_url acc \<Longrightarrow> keyed_by_url (foldl (\<lambda>uniq d. dict_set (url d) d uniq) acc deals)"
  by (induction deals arbitrary: acc) (auto simp: keyed_dict_set)

lemma map_of_foldl:
  "map_of (foldl (\<lambda>uniq d. dict_set (url d) d uniq) acc deals) u =
     (if u \<in> url ` set deals then Some (last (filter (\<lambda>d. url d = u) deals))
      else map_of acc u)"
proof (induction deals arbitrary: acc)
  case Nil
  show ?case by simp
next
  case (Cons d ds)
  show ?case
  proof (cases "u \<in> url ` set ds")
    case True
    then have "filter (\<lambda>d. url d = u) ds \<noteq> []"
      by (auto simp: filter_empty_conv)
    with True show ?thesis by (simp add: Cons.IH)
  next
    case False
    then have "filter (\<lambda>d. url d = u) ds = []"
      by (auto simp: filter_empty_conv)
    with False show ?thesis by (auto simp add: Cons.IH map_of_dict_set)
  qed
qed

lemma values_foldl:
  "snd ` set (foldl (\<lambda>uniq d. dict_set (url d) d uniq) acc deals) \<subseteq> snd ` set acc \<union> set deals"
proof (induction deals arbitrary: acc)
  case Nil
  show ?case by simp
next
  case (Cons d ds)
  have "snd ` set (dict_set (url d) d acc) \<subseteq> insert d (snd ` set acc)"
    using set_dict_set [of "url d" d acc] by auto
  with Cons.IH [of "dict_set (url d) d acc"] show ?case by auto
qed

lemma filter_key_unique:
  "distinct (map fst ps) \<Longrightarrow> map_of ps u = Some v \<Longrightarrow> filter (\<lambda>p. fst p = u) ps = [(u, v)]"
proof (induction ps)
  case Nil
  then show ?case by simp
next
  case (Cons p ps)
  show ?case
  proof (cases "fst p = u")
    case True
    with Cons.prems have "u \<notin> fst ` set ps" and "p = (u, v)" by (auto simp: prod_eq_iff)
    then have "filter (\<lambda>p. fst p = u) ps = []" by (auto simp: filter_empty_conv)
    with True \<open>p = (u, v)\<close> show ?thesis by simp
  next
    case False
    with Cons show ?thesis by auto
  qed
qed

lemma filter_values_keyed:
  assumes "keyed_by_url ps"
  shows "filter (\<lambda>d. url d = u) (map snd ps) = map snd (filter (\<lambda>p. fst p = u) ps)"
proof -
  have "filter (\<lambda>p. url (snd p) = u) ps = filter (\<lambda>p. fst p = u) ps"
    using assms by (intro filter_cong) (auto simp: keyed_by_url_def)
  then show ?thesis by (simp add: filter_map comp_def)
qed

lemma keyed_Nil: "keyed_by_url []"
  by (simp add: keyed_by_url_def)

text \<open>
  C6. De-duplication is last-wins: for every url \<open>u\<close> that occurs in the input, the
  output holds exactly one deal with that url, the last one of the input; and the output
  holds no deal that is not in the input. For two deals A then B with one url the result
  is \<open>[B]\<close>.
\<close>

theorem dedupe_last_wins:
  assumes "u \<in> url ` set deals"
  shows "filter (\<lambda>d. url d = u) (dedupe deals) = [last (filter (\<lambda>d. url d = u) deals)]
         \<and> set (dedupe deals) \<subseteq> set deals"
proof
  let ?R = "foldl (\<lambda>uniq d. dict_set (url d) d uniq) [] deals"
  have k: "keyed_by_url ?R" by (rule keyed_foldl [OF keyed_Nil])
  have m: "map_of ?R u = Some (last (filter (\<lambda>d. url d = u) deals))"
    using assms by (simp add: map_of_foldl)
  have "filter (\<lambda>p. fst p = u) ?R = [(u, last (filter (\<lambda>d. url d = u) deals))]"
    using k m by (intro filter_key_unique) (simp_all add: keyed_by_url_def)
  then show "filter (\<lambda>d. url d = u) (dedupe deals) = [last (filter (\<lambda>d. url d = u) deals)]"
    by (simp add: dedupe_def filter_values_keyed [OF k])
  show "set (dedupe deals) \<subseteq> set deals"
    using values_foldl [of "[]" deals] by (simp add: dedupe_def)
qed

theorem dedupe_last_wins_witness:
  "deal_leasehold_again \<noteq> deal_leasehold
   \<and> url deal_leasehold_again = url deal_leasehold
   \<and> dedupe [deal_leasehold, deal_leasehold_again] = [deal_leasehold_again]"
proof -
  let ?u = "Some ''https://a.example/1''"
  have "?u \<in> url ` set [deal_leasehold, deal_leasehold_again]"
    by (simp add: deal_leasehold_def)
  from dedupe_last_wins [OF this]
  show ?thesis
    by (simp add: dedupe_def deal_leasehold_def deal_leasehold_again_def)
qed
lemma distinct_url_dedupe: "distinct (map url (dedupe deals))"
proof -
  let ?R = "foldl (\<lambda>uniq d. dict_set (url d) d uniq) [] deals"
  have k: "keyed_by_url ?R" by (rule keyed_foldl [OF keyed_Nil])
  then have e: "map url (map snd ?R) = map fst ?R"
    by (simp add: keyed_by_url_def)
  show ?thesis
    unfolding dedupe_def e using k by (simp add: keyed_by_url_def)
qed

lemma foldl_distinct_urls:
  "distinct (map url xs) \<Longrightarrow> url ` set xs \<inter> fst ` set acc = {} \<Longrightarrow>
     foldl (\<lambda>uniq d. dict_set (url d) d uniq) acc xs = acc @ map (\<lambda>d. (url d, d)) xs"
proof (induction xs arbitrary: acc)
  case Nil
  show ?case by simp
next
  case (Cons x xs)
  from Cons.prems have fresh: "url x \<notin> fst ` set acc" by auto
  have step: "dict_set (url x) x acc = acc @ [(url x, x)]"
    by (rule dict_set_fresh [OF fresh])
  have "url ` set xs \<inter> fst ` set (acc @ [(url x, x)]) = {}"
    using Cons.prems by auto
  with Cons.prems Cons.IH [of "acc @ [(url x, x)]"] step show ?case by simp
qed

lemma dedupe_distinct_id: "distinct (map url xs) \<Longrightarrow> dedupe xs = xs"
  by (simp add: dedupe_def foldl_distinct_urls comp_def)

text \<open>
  C7. De-duplication is idempotent: a second pass returns the list of the first pass
  unchanged (the same deals in the same order, hence the same set keyed by url).
\<close>

theorem dedupe_idempotent: "dedupe (dedupe deals) = dedupe deals"
  by (rule dedupe_distinct_id [OF distinct_url_dedupe])

section \<open>Scoring\<close>

text \<open>
  C1. The claim: every value of \<open>features\<close> lies in \<open>[0, 1]\<close>. The recency feature is
  \<open>max(0, 1 - days/30)\<close>, with no upper bound: a deal listed one day after the local
  date of the run has \<open>days = -1\<close> and the recency feature 1.033.
\<close>

theorem recency_of_future_listing_exceeds_one:
  "map_sum id (map features) (score_deals run_nov4 [deal_listed_tomorrow] full_config) =
     Inr [[(''margin'', 0), (''price_to_ebitda'', 0), (''recency'', 1033 / 1000),
           (''freehold'', 3 / 10), (''category'', 1), (''proximity'', 1 / 2)]]"
  by (simp add: score_eval run_nov4_def full_config_def deal_listed_tomorrow_def
      deal_leasehold_def)

lemma truncate_extend: "deal.truncate (deal.extend d ext) = d"
  by (simp add: deal.truncate_def deal.extend_def)

lemma score_one_truncate:
  "score_one rt w target hqlat hqlon maxd d = Inr x \<Longrightarrow> deal.truncate x = d"
proof -
  assume "score_one rt w target hqlat hqlon maxd d = Inr x"
  then have "\<exists>ext. x = deal.extend d ext"
    unfolding score_one_def Let_def bind_err_Inr by blast
  then show ?thesis by (auto simp: truncate_extend)
qed

lemma score_loop_pointwise:
  "score_loop rt w target hqlat hqlon maxd deals = Inr out \<Longrightarrow>
     list_all2 (\<lambda>d x. score_one rt w target hqlat hqlon maxd d = Inr x) deals out"
proof (induction deals arbitrary: out)
  case Nil
  then show ?case by simp
next
  case (Cons d ds)
  then show ?case by (auto simp: bind_err_Inr)
qed

lemma score_loop_truncate:
  assumes "score_loop rt w target hqlat hqlon maxd deals = Inr out"
  shows "map deal.truncate out = deals"
proof -
  have "list_all2 (\<lambda>d x. deal.truncate x = d) deals out"
    using score_loop_pointwise [OF assms]
    by (rule list_all2_mono) (rule score_one_truncate)
  then show ?thesis
    by (induction rule: list_all2_induct) simp_all
qed

lemma score_unsorted_loop:
  "score_unsorted rt deals cfg = Inr pre \<Longrightarrow>
     \<exists>w target hqlat hqlon maxd.
       weights cfg = Some w \<and> target_categories cfg = Some target \<and> hq_lat cfg = Some hqlat
       \<and> hq_lon cfg = Some hqlon \<and> max_distance_km_for_full_points cfg = Some maxd
       \<and> score_loop rt w target hqlat hqlon maxd deals = Inr pre"
  by (auto simp: score_unsorted_def bind_err_Inr cfg_get_def split: option.splits)

lemma score_unsorted_truncate:
  "score_unsorted rt deals cfg = Inr pre \<Longrightarrow> map deal.truncate pre = deals"
  using score_unsorted_loop score_loop_truncate by blast

lemma score_deals_sorted_unsorted:
  "score_deals rt deals cfg = Inr out \<longleftrightarrow>
     (\<exists>pre. score_unsorted rt deals cfg = Inr pre \<and> out = sort_by_score_desc pre)"
  by (auto simp: score_deals_def bind_err_Inr)

lemma sorted_desc_sort_by_score:
  "sorted_wrt (\<lambda>x y. score y \<le> score x) (sort_by_score_desc pre)"
proof -
  have "sorted (map (\<lambda>x. - score x) (sort_key (\<lambda>x. - score x) pre))"
    by (rule sorted_sort_key)
  then show ?thesis
    by (simp add: sort_by_score_desc_def sorted_wrt_map)
qed

lemma stable_sort_by_score:
  "filter (\<lambda>x. score x = s) (sort_by_score_desc pre) = filter (\<lambda>x. score x = s) pre"
proof -
  have "filter (\<lambda>x. - score x = - s) (sort_key (\<lambda>x. - score x) pre)
          = filter (\<lambda>x. - score x = - s) pre"
    by (rule sort_key_stable)
  then show ?thesis by (simp add: sort_by_score_desc_def)
qed

lemma mset_sort_by_score: "mset (sort_by_score_desc pre) = mset pre"
  by (simp add: sort_by_score_desc_def)

text \<open>
  C8. The ranking sorts by \<open>score\<close>, descending, and is stable: the returned list is the
  list \<open>pre\<close> of scored deals in input order, sorted so that scores never increase, and
  for every score the deals with that score come in the order they have in \<open>pre\<close>.
\<close>

theorem score_deals_ranked_stable:
  assumes "score_deals rt deals cfg = Inr out"
  shows "\<exists>pre. score_unsorted rt deals cfg = Inr pre
           \<and> map deal.truncate pre = deals
           \<and> sorted_wrt (\<lambda>x y. score y \<le> score x) out
           \<and> (\<forall>s. filter (\<lambda>x. score x = s) out = filter (\<lambda>x. score x = s) pre)"
proof -
  from assms obtain pre where
    pre: "score_unsorted rt deals cfg = Inr pre" and out: "out = sort_by_score_desc pre"
    by (auto simp: score_deals_sorted_unsorted)
  show ?thesis
    using pre score_unsorted_truncate [OF pre]
    by (auto simp: out sorted_desc_sort_by_score stable_sort_by_score)
qed

theorem score_deals_ranked_stable_witness:
  "map title (projr (score_deals run_nov4
       [deal_leasehold, deal_freehold, deal_leasehold_again] full_config))
     = [''Cafe B'', ''Cafe A'', ''Cafe A (updated)'']
   \<and> (\<exists>pre. score_unsorted run_nov4
         [deal_leasehold, deal_freehold, deal_leasehold_again] full_config = Inr pre
       \<and> map title pre = [''Cafe A'', ''Cafe B'', ''Cafe A (updated)'']
       \<and> filter (\<lambda>x. score x = 69 / 200) (projr (score_deals run_nov4
           [deal_leasehold, deal_freehold, deal_leasehold_again] full_config))
         = filter (\<lambda>x. score x = 69 / 200) pre)"
proof -
  let ?D = "[deal_leasehold, deal_freehold, deal_leasehold_again]"
  let ?r = "score_deals run_nov4 ?D full_config"
  have e: "?r = Inr (projr ?r)"
    by (simp add: score_eval run_nov4_def full_config_def deal_freehold_def
        deal_leasehold_again_def deal_leasehold_def)
  have t: "map title (projr ?r) = [''Cafe B'', ''Cafe A'', ''Cafe A (updated)'']"
    by (simp add: score_eval run_nov4_def full_config_def deal_freehold_def
        deal_leasehold_again_def deal_leasehold_def)
  from score_deals_ranked_stable [OF e] obtain pre where
    pre: "score_unsorted run_nov4 ?D full_config = Inr pre"
    and tr: "map deal.truncate pre = ?D"
    and st: "\<forall>s. filter (\<lambda>x. score x = s) (projr ?r) = filter (\<lambda>x. score x = s) pre"
    by auto
  have "map title pre = map title (map deal.truncate pre)"
    by (simp add: deal.truncate_def comp_def)
  also have "\<dots> = [''Cafe A'', ''Cafe B'', ''Cafe A (updated)'']"
    unfolding tr
    by (simp add: deal_freehold_def deal_leasehold_again_def deal_leasehold_def)
  finally have tp: "map title pre = [''Cafe A'', ''Cafe B'', ''Cafe A (updated)'']" .
  have f: "filter (\<lambda>x. score x = 69 / 200) (projr ?r) = filter (\<lambda>x. score x = 69 / 200) pre"
    by (rule st [rule_format])
  show ?thesis
    by (intro conjI exI [of _ pre]) (rule t pre tp f)+
qed

text \<open>
  C2, as the code has it. \<open>score_deals\<close> returns exactly the input deals, each with
  \<open>score\<close> and \<open>features\<close> added, as a rearrangement of the input: the list is sorted by
  score, descending (line 168), not kept in input order. The input order is kept among
  deals of equal score: for every score, the deals with that score come as in \<open>pre\<close>,
  the scored deals in input order.
\<close>

theorem score_deals_permutes_input:
  assumes "score_deals rt deals cfg = Inr out"
  shows "mset (map deal.truncate out) = mset deals
         \<and> sorted_wrt (\<lambda>x y. score y \<le> score x) out
         \<and> (\<exists>pre. score_unsorted rt deals cfg = Inr pre
               \<and> map deal.truncate pre = deals
               \<and> (\<forall>s. filter (\<lambda>x. score x = s) out = filter (\<lambda>x. score x = s) pre))"
proof -
  from assms obtain pre where
    pre: "score_unsorted rt deals cfg = Inr pre" and out: "out = sort_by_score_desc pre"
    by (auto simp: score_deals_sorted_unsorted)
  have tr: "map deal.truncate pre = deals" by (rule score_unsorted_truncate [OF pre])
  have "mset (map deal.truncate out) = image_mset deal.truncate (mset pre)"
    by (simp add: out mset_sort_by_score)
  also have "\<dots> = mset (map deal.truncate pre)" by simp
  also have "\<dots> = mset deals" by (simp add: tr)
  finally have perm: "mset (map deal.truncate out) = mset deals" .
  have srt: "sorted_wrt (\<lambda>x y. score y \<le> score x) out"
    by (simp add: out sorted_desc_sort_by_score)
  have stable: "\<forall>s. filter (\<lambda>x. score x = s) out = filter (\<lambda>x. score x = s) pre"
    by (simp add: out stable_sort_by_score)
  from pre tr stable
  have "\<exists>pre. score_unsorted rt deals cfg = Inr pre
          \<and> map deal.truncate pre = deals
          \<and> (\<forall>s. filter (\<lambda>x. score x = s) out = filter (\<lambda>x. score x = s) pre)"
    by (intro exI [of _ pre] conjI)
  with perm srt show ?thesis by (intro conjI)
qed

theorem score_deals_permutes_input_witness:
  "map title (projr (score_deals run_nov4
       [deal_leasehold_again, deal_freehold, deal_leasehold] full_config))
     = [''Cafe B'', ''Cafe A (updated)'', ''Cafe A'']
   \<and> map score (projr (score_deals run_nov4
       [deal_leasehold_again, deal_freehold, deal_leasehold] full_config))
     = [9 / 20, 69 / 200, 69 / 200]
   \<and> mset (map deal.truncate (projr (score_deals run_nov4
       [deal_leasehold_again, deal_freehold, deal_leasehold] full_config)))
     = mset [deal_leasehold_again, deal_freehold, deal_leasehold]
   \<and> (\<exists>pre. score_unsorted run_nov4
         [deal_leasehold_again, deal_freehold, deal_leasehold] full_config = Inr pre
       \<and> map title pre = [''Cafe A (updated)'', ''Cafe B'', ''Cafe A'']
       \<and> filter (\<lambda>x. score x = 69 / 200) (projr (score_deals run_nov4
           [deal_leasehold_again, deal_freehold, deal_leasehold] full_config))
         = filter (\<lambda>x. score x = 69 / 200) pre)"
proof -
  let ?D = "[deal_leasehold_again, deal_freehold, deal_leasehold]"
  let ?r = "score_deals run_nov4 ?D full_config"
  have e: "?r = Inr (projr ?r)"
    by (simp add: score_eval run_nov4_def full_config_def deal_freehold_def
        deal_leasehold_again_def deal_leasehold_def)
  have t: "map title (projr ?r) = [''Cafe B'', ''Cafe A (updated)'', ''Cafe A'']"
    by (simp add: score_eval run_nov4_def full_config_def deal_freehold_def
        deal_leasehold_again_def deal_leasehold_def)
  have sc: "map score (projr ?r) = [9 / 20, 69 / 200, 69 / 200]"
    by (simp add: score_eval run_nov4_def full_config_def deal_freehold_def
        deal_leasehold_again_def deal_leasehold_def)
  note main = score_deals_permutes_input [OF e]
  have perm: "mset (map deal.truncate (projr ?r)) = mset ?D"
    using main by (rule conjunct1)
  have ex: "\<exists>pre. score_unsorted run_nov4 ?D full_config = Inr pre
          \<and> map deal.truncate pre = ?D
          \<and> (\<forall>s. filter (\<lambda>x. score x = s) (projr ?r) = filter (\<lambda>x. score x = s) pre)"
    using main by (elim conjE)
  from ex obtain pre where
    pre: "score_unsorted run_nov4 ?D full_config = Inr pre"
    and tr: "map deal.truncate pre = ?D"
    and st: "\<forall>s. filter (\<lambda>x. score x = s) (projr ?r) = filter (\<lambda>x. score x = s) pre"
    by (elim exE conjE)
  have "map title pre = map title (map deal.truncate pre)"
    by (simp add: deal.truncate_def comp_def)
  also have "\<dots> = [''Cafe A (updated)'', ''Cafe B'', ''Cafe A'']"
    unfolding tr
    by (simp add: deal_freehold_def deal_leasehold_again_def deal_leasehold_def)
  finally have tp: "map title pre = [''Cafe A (updated)'', ''Cafe B'', ''Cafe A'']" .
  have f: "filter (\<lambda>x. score x = 69 / 200) (projr ?r) = filter (\<lambda>x. score x = 69 / 200) pre"
    by (rule st [rule_format])
  show ?thesis
    by (intro conjI exI [of _ pre]) (rule t sc perm pre tp f)+
qed

text \<open>
  C2, as the claim states it, fails: of two deals the second, a freehold, scores higher
  and is returned first.
\<close>

theorem score_deals_reorders_input:
  "map_sum id (map deal.truncate)
     (score_deals run_nov4 [deal_leasehold, deal_freehold] full_config)
     = Inr [deal_freehold, deal_leasehold]
   \<and> [deal_freehold, deal_leasehold] \<noteq> [deal_leasehold, deal_freehold]"
  by (simp add: score_eval run_nov4_def full_config_def deal_freehold_def deal_leasehold_def)

lemma round3_one: "round3 1 = 1"
  by (simp add: round3_def round_half_even_def)

lemma score_one_no_price:
  assumes "score_one rt w target hqlat hqlon maxd d = Inr x"
    and "asking_price_aud d = None" and "ebitda_aud d = Some e" and "0 < e"
  shows "map_of (features x) ''price_to_ebitda'' = Some 1"
  using assms
  by (auto simp: score_one_def Let_def bind_err_Inr or0_def deal.extend_def round3_one)

lemma score_one_missing_weight:
  assumes "k \<in> set weight_keys" and "map_of w k = None"
  shows "isl (score_one rt w target hqlat hqlon maxd d)"
  using assms
  by (auto simp: score_one_def Let_def bind_err_def lookup_weight_def weight_keys_def
      split: sum.splits option.splits)

lemma score_loop_missing_weight:
  assumes "k \<in> set weight_keys" and "map_of w k = None" and "deals \<noteq> []"
  shows "isl (score_loop rt w target hqlat hqlon maxd deals)"
proof (cases deals)
  case Nil
  with assms show ?thesis by simp
next
  case (Cons d ds)
  have "isl (score_one rt w target hqlat hqlon maxd d)"
    by (rule score_one_missing_weight [OF assms(1,2)])
  then obtain e where "score_one rt w target hqlat hqlon maxd d = Inl e"
    by (cases "score_one rt w target hqlat hqlon maxd d") auto
  with Cons show ?thesis by (simp add: bind_err_def)
qed

text \<open>
  C9, as the code has it. A configuration without one of the five top-level keys makes
  \<open>score_deals\<close> raise KeyError before any deal is scored. A \<open>weights\<close> object without
  one of the six weight keys makes it raise while the first deal is scored, so only when
  there is a deal to score; no default weight is ever substituted.
\<close>

theorem missing_config_field_fails:
  "(weights cfg = None \<or> target_categories cfg = None \<or> hq_lat cfg = None
      \<or> hq_lon cfg = None \<or> max_distance_km_for_full_points cfg = None
     \<longrightarrow> (\<exists>k. score_deals rt deals cfg = Inl (KeyError k)))
   \<and> (weights cfg = Some w \<and> k \<in> set weight_keys \<and> map_of w k = None \<and> deals \<noteq> []
     \<longrightarrow> isl (score_deals rt deals cfg))"
proof (intro conjI impI)
  assume "weights cfg = None \<or> target_categories cfg = None \<or> hq_lat cfg = None
      \<or> hq_lon cfg = None \<or> max_distance_km_for_full_points cfg = None"
  then show "\<exists>k. score_deals rt deals cfg = Inl (KeyError k)"
    by (auto simp: score_deals_def score_unsorted_def bind_err_def cfg_get_def
        split: option.splits)
next
  assume a: "weights cfg = Some w \<and> k \<in> set weight_keys \<and> map_of w k = None \<and> deals \<noteq> []"
  then have loop: "isl (score_loop rt w target hqlat hqlon maxd deals)"
    for target hqlat hqlon maxd
    by (intro score_loop_missing_weight [of k]) simp_all
  have "isl (score_unsorted rt deals cfg)"
    using a loop
    by (auto simp: score_unsorted_def bind_err_def cfg_get_def split: option.splits sum.splits)
  then show "isl (score_deals rt deals cfg)"
    by (auto simp: score_deals_def bind_err_def split: sum.splits)
qed

theorem missing_config_field_fails_witness:
  "(\<exists>k. score_deals run_nov4 [deal_leasehold] config_without_hq_lat = Inl (KeyError k))
   \<and> isl (score_deals run_nov4 [deal_leasehold] config_without_weight_keys)"
proof -
  have 1: "hq_lat config_without_hq_lat = None"
    by (simp add: config_without_hq_lat_def)
  have 2: "weights config_without_weight_keys = Some []"
    and 3: "''recency'' \<in> set weight_keys"
    and 4: "map_of ([] :: (string \<times> real) list) ''recency'' = None"
    and 5: "[deal_leasehold] \<noteq> []"
    by (simp_all add: config_without_weight_keys_def weight_keys_def)
  from missing_config_field_fails
    [of config_without_hq_lat run_nov4 "[deal_leasehold]" "[]" "''recency''"] 1
  have a: "\<exists>k. score_deals run_nov4 [deal_leasehold] config_without_hq_lat = Inl (KeyError k)"
    by blast
  from missing_config_field_fails
    [of config_without_weight_keys run_nov4 "[deal_leasehold]" "[]" "''recency''"] 2 3 4 5
  have b: "isl (score_deals run_nov4 [deal_leasehold] config_without_weight_keys)"
    by blast
  from a b show ?thesis by blast
qed

text \<open>
  C9, as the claim states it, fails: with no deals the weights are never read, and an
  empty \<open>weights\<close> object raises no error; the empty list is returned.
\<close>

theorem empty_run_ignores_missing_weights:
  "score_deals run_nov4 [] config_without_weight_keys = Inr []"
  by (simp add: score_eval config_without_weight_keys_def full_config_def)

lemma score_loop_elems:
  "score_loop rt w target hqlat hqlon maxd deals = Inr pre \<Longrightarrow>
     \<forall>x \<in> set pre. score_one rt w target hqlat hqlon maxd (deal.truncate x) = Inr x"
proof (induction deals arbitrary: pre)
  case Nil
  then show ?case by simp
next
  case (Cons d ds)
  then show ?case by (auto simp: bind_err_Inr score_one_truncate)
qed

lemma set_sort_by_score: "set (sort_by_score_desc pre) = set pre"
  by (simp add: sort_by_score_desc_def)

text \<open>
  C10. A deal with no asking price and a strictly positive EBITDA is scored as if the
  price were 0: whenever \<open>score_deals\<close> returns, the deal is in the output and its
  \<open>price_to_ebitda\<close> feature is exactly 1.
\<close>

theorem missing_price_scores_full_credit:
  assumes "score_deals rt deals cfg = Inr out"
    and "d \<in> set deals"
    and "asking_price_aud d = None" and "ebitda_aud d = Some e" and "0 < e"
  shows "(\<exists>x \<in> set out. deal.truncate x = d)
         \<and> (\<forall>x \<in> set out. deal.truncate x = d
               \<longrightarrow> map_of (features x) ''price_to_ebitda'' = Some 1)"
proof -
  from assms(1) obtain pre where
    pre: "score_unsorted rt deals cfg = Inr pre" and out: "out = sort_by_score_desc pre"
    by (auto simp: score_deals_sorted_unsorted)
  from score_unsorted_loop [OF pre] obtain w target hqlat hqlon maxd where
    loop: "score_loop rt w target hqlat hqlon maxd deals = Inr pre"
    by blast
  have s: "set out = set pre" by (simp add: out set_sort_by_score)
  have "set deals = deal.truncate ` set pre"
    using score_loop_truncate [OF loop] by (metis set_map)
  with assms(2) have ex: "\<exists>x \<in> set out. deal.truncate x = d"
    unfolding s by auto
  have "map_of (features x) ''price_to_ebitda'' = Some 1"
    if "x \<in> set out" and "deal.truncate x = d" for x
  proof -
    from that s score_loop_elems [OF loop]
    have "score_one rt w target hqlat hqlon maxd d = Inr x" by auto
    then show ?thesis using assms(3-5) by (rule score_one_no_price)
  qed
  with ex show ?thesis by blast
qed

theorem missing_price_scores_full_credit_witness:
  "map_sum id (map (\<lambda>x. map_of (features x) ''price_to_ebitda''))
     (score_deals run_nov4 [deal_leasehold, deal_no_price] full_config) = Inr [Some 1, Some 0]"
proof -
  let ?r = "score_deals run_nov4 [deal_leasehold, deal_no_price] full_config"
  have e: "?r = Inr (projr ?r)"
    by (simp add: score_eval run_nov4_def full_config_def deal_no_price_def deal_leasehold_def)
  have m: "deal_no_price \<in> set [deal_leasehold, deal_no_price]" by simp
  have p: "asking_price_aud deal_no_price = None"
    and b: "ebitda_aud deal_no_price = Some 300000"
    by (simp_all add: deal_no_price_def deal_leasehold_def)
  have "(0 :: real) < 300000" by simp
  from missing_price_scores_full_credit [OF e m p b this]
  show ?thesis
    by (simp add: score_eval run_nov4_def full_config_def deal_no_price_def deal_leasehold_def)
qed

end
